theory Spec2Isabelle
  imports Main
begin

section \<open>Python values and errors\<close>

text \<open>
  The updater of \<^verbatim>\<open>src/scripts/app.py\<close> (class \<^verbatim>\<open>ArtellaUpdater\<close>) is embedded
  function by function. Exceptions are values of \<open>py_error\<close>; a function that can raise
  returns \<open>py_error + 'a\<close>. \<open>Exception e\<close> is \<^verbatim>\<open>raise Exception(exc)\<close> around a caught
  \<open>e\<close>. Python 2 byte strings are \<open>string\<close>.
\<close>

datatype py_error =
    InvalidVersion
  | TypeError
  | AttributeError
  | ValueError
  | ZeroDivisionError
  | IOError
  | Exception py_error

type_synonym bytes = string

section \<open>The configuration store\<close>

text \<open>
  The store is one file at \<^verbatim>\<open>_get_config_path()\<close>. What \<^verbatim>\<open>json.load\<close> makes of its
  text is the only thing the code looks at, so the content is kept as the outcome of
  that call: text that is not JSON, JSON that is not an object (a list, a number, a
  string, null), or an object. The store holds strings under string keys (install path
  and tag), so an object is a map from strings to strings, and \<^verbatim>\<open>json.load\<close> gives
  back the dict that \<^verbatim>\<open>json.dump\<close> wrote.

  \<^verbatim>\<open>_get_config_path\<close> builds the path from \<^verbatim>\<open>_get_app_folder\<close>, which creates the
  application folder when it is missing. \<^verbatim>\<open>__init__\<close> calls \<^verbatim>\<open>_setup_logger\<close>, and
  with it \<^verbatim>\<open>_get_app_folder\<close>, before any function below, so the folder exists and
  computing the path changes nothing.
\<close>

datatype file_content =
    NotJson
  | JsonNonObject
  | JsonObject "string \<rightharpoonup> string"

datatype py_data =
    Dict "string \<rightharpoonup> string"
  | NonDict

text \<open>
  The disk: the configuration file (absent or present with a content), the set of paths
  that are existing directories (\<^verbatim>\<open>os.path.isdir\<close>), and the other regular files with
  their bytes. A directory or file is known under one path, the string the program
  uses for it.
\<close>

record disk =
  config_file :: "file_content option"
  dirs :: "string set"
  files :: "string \<rightharpoonup> bytes"

text \<open>\<^verbatim>\<open>json.load(config_file)\<close>: raises on text that is not JSON.\<close>

fun json_load :: "file_content \<Rightarrow> py_error + py_data" where
  "json_load NotJson = Inl ValueError"
| "json_load JsonNonObject = Inr NonDict"
| "json_load (JsonObject m) = Inr (Dict m)"

text \<open>
  \<^verbatim>\<open>get_config_data\<close>: the empty dict when \<^verbatim>\<open>os.path.isfile\<close> fails; otherwise
  \<^verbatim>\<open>json.load\<close> under \<^verbatim>\<open>try ... except Exception: data = dict()\<close>.
\<close>

definition get_config_data :: "disk \<Rightarrow> py_data" where
  "get_config_data d =
     (case config_file d of
        None \<Rightarrow> Dict Map.empty
      | Some c \<Rightarrow>
          (case json_load c of
             Inl _ \<Rightarrow> Dict Map.empty
           | Inr data \<Rightarrow> data))"

text \<open>
  \<^verbatim>\<open>_set_config\<close>: returns False when the file is missing; otherwise reads the
  data, assigns \<^verbatim>\<open>config_data[config_name] = config_value\<close> (a TypeError when the
  data is not a dict) and rewrites the whole file.
\<close>

definition set_config :: "string \<Rightarrow> string \<Rightarrow> disk \<Rightarrow> (py_error + bool) \<times> disk" where
  "set_config config_name config_value d =
     (case config_file d of
        None \<Rightarrow> (Inr False, d)
      | Some _ \<Rightarrow>
          (case get_config_data d of
             NonDict \<Rightarrow> (Inl TypeError, d)
           | Dict config_data \<Rightarrow>
               (Inr True,
                d\<lparr>config_file := Some (JsonObject (config_data(config_name \<mapsto> config_value)))\<rparr>)))"

text \<open>
  \<^verbatim>\<open>_setup_config\<close>: writes \<^verbatim>\<open>{}\<close> when the file is missing. (The removal of the
  legacy configuration by \<^verbatim>\<open>_clean_old_config\<close> touches another file.)
\<close>

definition setup_config :: "disk \<Rightarrow> disk" where
  "setup_config d =
     (case config_file d of
        None \<Rightarrow> d\<lparr>config_file := Some (JsonObject Map.empty)\<rparr>
      | Some _ \<Rightarrow> d)"

text \<open>The spec's \<^verbatim>\<open>read()[k]\<close>: the value a read of the store gives at a key.\<close>

definition read_key :: "disk \<Rightarrow> string \<Rightarrow> string option" where
  "read_key d k = (case get_config_data d of Dict m \<Rightarrow> m k | NonDict \<Rightarrow> None)"

definition no_store :: disk where
  "no_store = \<lparr>config_file = None, dirs = {}, files = Map.empty\<rparr>"

definition corrupt_store :: disk where
  "corrupt_store = \<lparr>config_file = Some NotJson, dirs = {}, files = Map.empty\<rparr>"

definition tagged_store :: disk where
  "tagged_store =
     \<lparr>config_file = Some (JsonObject [''tag'' \<mapsto> ''1.0.0'']), dirs = {}, files = Map.empty\<rparr>"

section \<open>Version strings\<close>

subsection \<open>Lexical helpers\<close>

definition is_digit :: "char \<Rightarrow> bool" where
  "is_digit c = (c \<in> set ''0123456789'')"

text \<open>The characters \<^verbatim>\<open>str.strip()\<close> removes: space, tab, newline, return, VT, FF.\<close>

definition is_space :: "char \<Rightarrow> bool" where
  "is_space c = (c \<in> set [CHR '' '', CHR 0x09, CHR 0x0A, CHR 0x0D, CHR 0x0B, CHR 0x0C])"

definition strip :: "string \<Rightarrow> string" where
  "strip s = rev (dropWhile is_space (rev (dropWhile is_space s)))"

text \<open>
  The greedy repetition \<^verbatim>\<open>([.][0-9]+)+\<close> read from the front of a string: the digit
  runs of the groups it consumes, and what is left. Nothing optional follows a group
  that could make the matcher give one back.
\<close>

function dot_groups :: "string \<Rightarrow> string list \<times> string" where
  "dot_groups s =
     (case s of
        [] \<Rightarrow> ([], s)
      | c # r \<Rightarrow>
          if c = CHR ''.'' \<and> takeWhile is_digit r \<noteq> [] then
            (case dot_groups (dropWhile is_digit r) of
               (gs, rest) \<Rightarrow> (takeWhile is_digit r # gs, rest))
          else ([], s))"
  by pat_completeness auto
termination
  by (relation "measure length") (auto simp: less_Suc_eq_le length_dropWhile_le)

text \<open>The optional tail \<^verbatim>\<open>(rc[0-9]?)?\<close>: \<^verbatim>\<open>rc\<close> and at most one digit.\<close>

definition rc_suffix :: "string \<Rightarrow> string" where
  "rc_suffix s =
     (case s of
        c1 # c2 # r \<Rightarrow>
          if c1 = CHR ''r'' \<and> c2 = CHR ''c'' then
            (case r of
               [] \<Rightarrow> ''rc''
             | d # _ \<Rightarrow> if is_digit d then ''rc'' @ [d] else ''rc'')
          else []
      | _ \<Rightarrow> [])"

text \<open>
  A match of \<^verbatim>\<open>([0-9]+([.][0-9]+)+(rc[0-9]?)?)\<close> that starts at the front of the
  string: a digit run, at least one dotted group, the optional tail.
\<close>

definition match_version_at :: "string \<Rightarrow> string option" where
  "match_version_at s =
     (case dot_groups (dropWhile is_digit s) of
        (gs, rest) \<Rightarrow>
          if takeWhile is_digit s = [] \<or> gs = [] then None
          else Some (takeWhile is_digit s @ concat (map (\<lambda>g. CHR ''.'' # g) gs) @ rc_suffix rest))"

text \<open>\<^verbatim>\<open>re.search\<close>: the match at the leftmost position that has one.\<close>

fun re_search_version :: "string \<Rightarrow> string option" where
  "re_search_version [] = None"
| "re_search_version (c # s) =
     (case match_version_at (c # s) of
        Some m \<Rightarrow> Some m
      | None \<Rightarrow> re_search_version s)"

text \<open>\<^verbatim>\<open>_sanitize_github_version\<close>.\<close>

definition sanitize_github_version :: "string \<Rightarrow> string" where
  "sanitize_github_version version =
     (case re_search_version version of
        Some m \<Rightarrow> m
      | None \<Rightarrow> strip version)"

subsection \<open>The version class\<close>

text \<open>
  \<^verbatim>\<open>Version\<close> comes from the third-party package \<^verbatim>\<open>packaging\<close>, which is not part of
  the repository. The functions that call it take it as parameters: the constructor
  \<open>V :: string \<Rightarrow> 'v option\<close> (\<open>None\<close> where it raises \<^verbatim>\<open>InvalidVersion\<close>), the
  property \<open>is_prerelease :: 'v \<Rightarrow> bool\<close> and the comparison \<open>gt :: 'v \<Rightarrow> 'v \<Rightarrow> bool\<close>
  (\<^verbatim>\<open>a > b\<close>). Every general statement below holds for all of them.

  For concrete inputs the parameters are instantiated with \<open>Version_core\<close>, the part of
  PEP 440 made of a release \<^verbatim>\<open>N(.N)*\<close> and an optional \<^verbatim>\<open>rcN\<close>, surrounding blanks
  ignored. The library accepts further forms (epochs, other pre-release markers, post
  and dev releases, local versions); \<open>Version_core\<close> is used only on strings of the
  form above and on strings that, blanks stripped, start neither with a digit nor with
  \<^verbatim>\<open>v\<close> and a digit, where the two agree.
\<close>

record version =
  release_segment :: "nat list"
  rc_number :: "nat option"

definition nat_of_digits :: "string \<Rightarrow> nat" where
  "nat_of_digits ds = foldl (\<lambda>n c. 10 * n + (of_char c - 48)) 0 ds"

definition Version_core :: "string \<Rightarrow> version option" where
  "Version_core version =
     (let s = strip version in
      case dot_groups (dropWhile is_digit s) of
        (gs, rest) \<Rightarrow>
          if takeWhile is_digit s = [] then None
          else if rest = [] then
            Some \<lparr>release_segment = map nat_of_digits (takeWhile is_digit s # gs), rc_number = None\<rparr>
          else if take 2 rest = ''rc'' \<and> list_all is_digit (drop 2 rest) then
            Some \<lparr>release_segment = map nat_of_digits (takeWhile is_digit s # gs),
                  rc_number = Some (nat_of_digits (drop 2 rest))\<rparr>
          else None)"

definition is_prerelease_core :: "version \<Rightarrow> bool" where
  "is_prerelease_core v = (rc_number v \<noteq> None)"

text \<open>Python's comparison of tuples of integers, \<^verbatim>\<open>a > b\<close>.\<close>

fun tuple_gt :: "nat list \<Rightarrow> nat list \<Rightarrow> bool" where
  "tuple_gt [] ys = False"
| "tuple_gt (x # xs) [] = True"
| "tuple_gt (x # xs) (y # ys) = (x > y \<or> (x = y \<and> tuple_gt xs ys))"

text \<open>
  The comparison key of the library: the release without its trailing zeros, then the
  pre-release, where a final release sorts after each of its release candidates.
\<close>

definition strip_zeros :: "nat list \<Rightarrow> nat list" where
  "strip_zeros ns = rev (dropWhile (\<lambda>n. n = 0) (rev ns))"

definition gt_core :: "version \<Rightarrow> version \<Rightarrow> bool" where
  "gt_core a b =
     (tuple_gt (strip_zeros (release_segment a)) (strip_zeros (release_segment b)) \<or>
      (strip_zeros (release_segment a) = strip_zeros (release_segment b) \<and>
       (case (rc_number a, rc_number b) of
          (None, None) \<Rightarrow> False
        | (None, Some _) \<Rightarrow> True
        | (Some _, None) \<Rightarrow> False
        | (Some m, Some n) \<Rightarrow> m > n)))"

section \<open>The release listing\<close>

text \<open>
  \<^verbatim>\<open>_get_latest_deploy_tag\<close> walks the elements of class \<^verbatim>\<open>release-entry\<close> of the
  releases page, from the first one through \<^verbatim>\<open>find_next_sibling\<close>. The page is kept
  as what the queries of the HTML library return on each element:
  \<^item> an element that carries the class \<^verbatim>\<open>release-timeline-tags\<close> (tags without a
    release) has child entries, each with the text of its first link, if it has one;
  \<^item> any other element is a formal release: whether a direct child of class
    \<^verbatim>\<open>label-latest\<close> and one of class \<^verbatim>\<open>label-prerelease\<close> exist, and the text of
    its element of class \<^verbatim>\<open>css-truncate-target\<close>, if it has one.
  The embedding covers \<^verbatim>\<open>format='version'\<close>, the value of every call in the
  repository.
\<close>

record formal_release =
  label_latest :: bool
  label_prerelease :: bool
  truncate_target :: "string option"

datatype release_entry =
    TimelineTags "string option list"
  | FormalRelease formal_release

text \<open>
  The inner \<^verbatim>\<open>for release in r.find_all(...)\<close> loop. The result is the version it
  assigns and the flag \<^verbatim>\<open>break_out\<close>. Without validation the loop stops at the first
  linked entry and leaves \<^verbatim>\<open>break_out\<close> False.
\<close>

fun scan_timeline_tags ::
  "(string \<Rightarrow> 'v option) \<Rightarrow> ('v \<Rightarrow> bool) \<Rightarrow> bool \<Rightarrow> bool \<Rightarrow> string option list
     \<Rightarrow> (string \<times> bool) option" where
  "scan_timeline_tags V is_prerelease validate pre [] = None"
| "scan_timeline_tags V is_prerelease validate pre (None # releases) =
     scan_timeline_tags V is_prerelease validate pre releases"
| "scan_timeline_tags V is_prerelease validate pre (Some release_a # releases) =
     (let the_version = sanitize_github_version release_a in
      if validate then
        (case V the_version of
           None \<Rightarrow> scan_timeline_tags V is_prerelease validate pre releases
         | Some v \<Rightarrow>
             if \<not> is_prerelease v \<or> pre then Some (the_version, True)
             else scan_timeline_tags V is_prerelease validate pre releases)
      else Some (the_version, False))"

text \<open>
  The \<^verbatim>\<open>while r\<close> loop over the entries, with the variable \<^verbatim>\<open>version\<close> as an
  accumulator. Reading \<^verbatim>\<open>.text\<close> of a missing \<^verbatim>\<open>css-truncate-target\<close> raises
  AttributeError.
\<close>

fun scan_release_entries ::
  "(string \<Rightarrow> 'v option) \<Rightarrow> ('v \<Rightarrow> bool) \<Rightarrow> bool \<Rightarrow> bool \<Rightarrow> release_entry list
     \<Rightarrow> string option \<Rightarrow> py_error + string option" where
  "scan_release_entries V is_prerelease validate pre [] version = Inr version"
| "scan_release_entries V is_prerelease validate pre (TimelineTags releases # rs) version =
     (case scan_timeline_tags V is_prerelease validate pre releases of
        None \<Rightarrow> scan_release_entries V is_prerelease validate pre rs version
      | Some (the_version, break_out) \<Rightarrow>
          if break_out then Inr (Some the_version)
          else scan_release_entries V is_prerelease validate pre rs (Some the_version))"
| "scan_release_entries V is_prerelease validate pre (FormalRelease r # rs) version =
     (if (if pre then label_prerelease r else label_latest r) then
        (case truncate_target r of
           None \<Rightarrow> Inl AttributeError
         | Some title \<Rightarrow>
             (let the_version = sanitize_github_version title in
              if validate then
                (case V the_version of
                   None \<Rightarrow> scan_release_entries V is_prerelease validate pre rs version
                 | Some v \<Rightarrow>
                     if \<not> is_prerelease v \<or> pre then Inr (Some the_version)
                     else scan_release_entries V is_prerelease validate pre rs version)
              else Inr (Some the_version)))
      else scan_release_entries V is_prerelease validate pre rs version)"

text \<open>
  \<^verbatim>\<open>_get_latest_deploy_tag\<close>: \<^verbatim>\<open>'DEV'\<close> in development mode; otherwise the scan (when
  \<^verbatim>\<open>sniff\<close>), then None for no version or an empty one, and None again when the
  version found does not parse under \<^verbatim>\<open>validate\<close>.
\<close>

definition get_latest_deploy_tag ::
  "(string \<Rightarrow> 'v option) \<Rightarrow> ('v \<Rightarrow> bool) \<Rightarrow> bool \<Rightarrow> bool \<Rightarrow> bool \<Rightarrow> bool \<Rightarrow> release_entry list
     \<Rightarrow> py_error + string option" where
  "get_latest_deploy_tag V is_prerelease dev sniff validate pre page =
     (if dev then Inr (Some ''DEV'')
      else
        (case (if sniff then scan_release_entries V is_prerelease validate pre page None
               else Inr None) of
           Inl e \<Rightarrow> Inl e
         | Inr None \<Rightarrow> Inr None
         | Inr (Some version) \<Rightarrow>
             if version = [] then Inr None
             else if validate then
               (case V version of
                  None \<Rightarrow> Inr None
                | Some _ \<Rightarrow> Inr (Some version))
             else Inr (Some version)))"

subsection \<open>The reading of the listing in the specification\<close>

text \<open>A tag is acceptable when it parses and is no pre-release, or pre-releases are allowed.\<close>

definition acceptable :: "(string \<Rightarrow> 'v option) \<Rightarrow> ('v \<Rightarrow> bool) \<Rightarrow> bool \<Rightarrow> string \<Rightarrow> bool" where
  "acceptable V is_prerelease pre tag =
     (case V tag of
        None \<Rightarrow> False
      | Some v \<Rightarrow> \<not> is_prerelease v \<or> pre)"

text \<open>The tag texts of an entry, in page order: every linked tag, every release title.\<close>

fun entry_texts :: "release_entry \<Rightarrow> string list" where
  "entry_texts (TimelineTags releases) = List.map_filter id releases"
| "entry_texts (FormalRelease r) =
     (case truncate_target r of None \<Rightarrow> [] | Some title \<Rightarrow> [title])"

text \<open>
  The specification's \<^verbatim>\<open>fetchLatest\<close>: the first entry in listing order whose sanitized
  tag is acceptable.
\<close>

definition first_acceptable_entry ::
  "(string \<Rightarrow> 'v option) \<Rightarrow> ('v \<Rightarrow> bool) \<Rightarrow> bool \<Rightarrow> release_entry list \<Rightarrow> string option" where
  "first_acceptable_entry V is_prerelease pre page =
     find (acceptable V is_prerelease pre)
       (map sanitize_github_version (concat (map entry_texts page)))"

text \<open>
  The entries the code looks at: every linked tag of a tag-only element, and a formal
  release only when it carries the label the flag selects (\<^verbatim>\<open>label-prerelease\<close> when
  \<^verbatim>\<open>pre\<close>, \<^verbatim>\<open>label-latest\<close> otherwise).
\<close>

definition selected_label :: "bool \<Rightarrow> formal_release \<Rightarrow> bool" where
  "selected_label pre r = (if pre then label_prerelease r else label_latest r)"

fun candidate_texts :: "bool \<Rightarrow> release_entry \<Rightarrow> string list" where
  "candidate_texts pre (TimelineTags releases) = List.map_filter id releases"
| "candidate_texts pre (FormalRelease r) =
     (if selected_label pre r then
        (case truncate_target r of None \<Rightarrow> [] | Some title \<Rightarrow> [title])
      else [])"

definition first_acceptable_candidate ::
  "(string \<Rightarrow> 'v option) \<Rightarrow> ('v \<Rightarrow> bool) \<Rightarrow> bool \<Rightarrow> release_entry list \<Rightarrow> string option" where
  "first_acceptable_candidate V is_prerelease pre page =
     find (acceptable V is_prerelease pre)
       (map sanitize_github_version (concat (map (candidate_texts pre) page)))"

text \<open>A page on which every formal release with the selected label has its title.\<close>

fun titled :: "bool \<Rightarrow> release_entry \<Rightarrow> bool" where
  "titled pre (TimelineTags releases) = True"
| "titled pre (FormalRelease r) = (\<not> selected_label pre r \<or> truncate_target r \<noteq> None)"

section \<open>The deploy tag\<close>

text \<open>
  \<^verbatim>\<open>_get_deploy_tag\<close>. \<open>yes\<close> is the user's answer to the upgrade question and
  \<open>page\<close> the releases page. \<^verbatim>\<open>config_data.get\<close> on data that is no dict raises
  AttributeError; \<^verbatim>\<open>Version(None)\<close> raises TypeError. The result is the tag (None
  when there is neither a persisted nor a latest one) and the disk.
\<close>

definition get_deploy_tag ::
  "(string \<Rightarrow> 'v option) \<Rightarrow> ('v \<Rightarrow> bool) \<Rightarrow> ('v \<Rightarrow> 'v \<Rightarrow> bool) \<Rightarrow> bool \<Rightarrow> bool
     \<Rightarrow> release_entry list \<Rightarrow> disk \<Rightarrow> (py_error + string option) \<times> disk" where
  "get_deploy_tag V is_prerelease gt dev yes page d =
     (if dev then (Inr (Some ''DEV''), d)
      else
        (case get_config_data d of
           NonDict \<Rightarrow> (Inl AttributeError, d)
         | Dict config_data \<Rightarrow>
             (let deploy_tag = (case config_data ''tag'' of None \<Rightarrow> [] | Some t \<Rightarrow> t) in
              case get_latest_deploy_tag V is_prerelease dev True True False page of
                Inl e \<Rightarrow> (Inl e, d)
              | Inr latest_deploy_tag \<Rightarrow>
                  if deploy_tag = [] then (Inr latest_deploy_tag, d)
                  else
                    (case V deploy_tag of
                       None \<Rightarrow> (Inl InvalidVersion, d)
                     | Some deploy_tag_v \<Rightarrow>
                         (case latest_deploy_tag of
                            None \<Rightarrow> (Inl TypeError, d)
                          | Some latest \<Rightarrow>
                              (case V latest of
                                 None \<Rightarrow> (Inl InvalidVersion, d)
                               | Some latest_tag_v \<Rightarrow>
                                   if gt latest_tag_v deploy_tag_v \<and> yes then
                                     (case set_config ''tag'' latest d of
                                        (Inl e, d') \<Rightarrow> (Inl e, d')
                                      | (Inr _, d') \<Rightarrow> (Inr (Some latest), d'))
                                   else (Inr (Some deploy_tag), d)))))))"

definition nightly_store :: disk where
  "nightly_store =
     \<lparr>config_file = Some (JsonObject [''tag'' \<mapsto> ''nightly'']), dirs = {}, files = Map.empty\<rparr>"

definition tags_page :: "release_entry list" where
  "tags_page = [TimelineTags [Some ''2.1.0'', Some ''2.0.0'', Some ''1.9.9rc1'']]"

definition malformed_page :: "release_entry list" where
  "malformed_page = [TimelineTags [Some ''vX'', Some [], None, Some ''1.9.9rc1'', Some ''1.9.8'']]"

definition maintenance_page :: "release_entry list" where
  "maintenance_page =
     [FormalRelease \<lparr>label_latest = False, label_prerelease = False,
                     truncate_target = Some ''1.9.1''\<rparr>,
      FormalRelease \<lparr>label_latest = True, label_prerelease = False,
                     truncate_target = Some ''2.0.0''\<rparr>]"

section \<open>Downloading the deployment\<close>

text \<open>
  The answer of the server to one \<^verbatim>\<open>urlopen\<close>: the \<^verbatim>\<open>Content-Length\<close> header as
  \<^verbatim>\<open>_chunk_read\<close> uses it (missing or empty; text that \<^verbatim>\<open>int\<close> rejects; a number)
  and the results of the successive \<^verbatim>\<open>response.read(chunk_size)\<close> calls. A read
  past the end of the list returns the empty chunk.
\<close>

datatype content_length =
    NoLength
  | BadLength
  | Length int

datatype read_result =
    Chunk bytes
  | ReadError

record response =
  header :: content_length
  reads :: "read_result list"

datatype url_result =
    UrlError
  | Opened response

text \<open>
  The \<^verbatim>\<open>while 1\<close> loop of \<^verbatim>\<open>_chunk_read\<close>: each chunk is written to the open file,
  the empty chunk ends the loop, and the report hook divides by \<^verbatim>\<open>total_size\<close>. The
  result is the byte count (or the exception) and the content of the file.
\<close>

fun read_chunks :: "read_result list \<Rightarrow> int \<Rightarrow> bytes \<Rightarrow> nat \<Rightarrow> (py_error + nat) \<times> bytes" where
  "read_chunks [] total_size content bytes_so_far = (Inr bytes_so_far, content)"
| "read_chunks (ReadError # rs) total_size content bytes_so_far = (Inl IOError, content)"
| "read_chunks (Chunk chunk # rs) total_size content bytes_so_far =
     (if chunk = [] then (Inr bytes_so_far, content)
      else if total_size = 0 then (Inl ZeroDivisionError, content @ chunk)
      else read_chunks rs total_size (content @ chunk) (bytes_so_far + length chunk))"

text \<open>
  \<^verbatim>\<open>_chunk_read\<close>: the destination is opened with mode \<^verbatim>\<open>'ab'\<close>, which creates a
  missing file and keeps the bytes of an existing one; without a length header the
  function returns None at once.
\<close>

definition chunk_read :: "response \<Rightarrow> string \<Rightarrow> disk \<Rightarrow> (py_error + nat option) \<times> disk" where
  "chunk_read rsp destination d =
     (let opened = (case files d destination of None \<Rightarrow> [] | Some old \<Rightarrow> old) in
      case header rsp of
        NoLength \<Rightarrow> (Inr None, d\<lparr>files := (files d)(destination \<mapsto> opened)\<rparr>)
      | BadLength \<Rightarrow> (Inl ValueError, d\<lparr>files := (files d)(destination \<mapsto> opened)\<rparr>)
      | Length total_size \<Rightarrow>
          (case read_chunks (reads rsp) total_size opened 0 of
             (Inl e, content) \<Rightarrow> (Inl e, d\<lparr>files := (files d)(destination \<mapsto> content)\<rparr>)
           | (Inr n, content) \<Rightarrow>
               (Inr (Some n), d\<lparr>files := (files d)(destination \<mapsto> content)\<rparr>)))"

text \<open>
  \<^verbatim>\<open>_download_file\<close>: every exception is raised again inside \<^verbatim>\<open>Exception\<close>; the
  result is whether the destination exists afterwards. The download folder is the
  temporary directory of \<^verbatim>\<open>_setup_deployment\<close>, which exists, so the branch that
  creates it is not taken.
\<close>

definition download_file :: "url_result \<Rightarrow> string \<Rightarrow> disk \<Rightarrow> (py_error + bool) \<times> disk" where
  "download_file answer destination d =
     (case answer of
        UrlError \<Rightarrow> (Inl (Exception IOError), d)
      | Opened rsp \<Rightarrow>
          (case chunk_read rsp destination d of
             (Inl e, d') \<Rightarrow> (Inl (Exception e), d')
           | (Inr _, d') \<Rightarrow> (Inr (files d' destination \<noteq> None), d')))"

text \<open>
  \<^verbatim>\<open>_unzip_file\<close> with \<^verbatim>\<open>remove_sub_folders=[]\<close>. The archive libraries are a
  parameter: \<open>extractall filename content destination d\<close> is whether the bytes of
  the file were extracted without an exception (by the library its suffix selects), and
  the disk afterwards.
\<close>

definition unzip_file ::
  "(string \<Rightarrow> bytes \<Rightarrow> string \<Rightarrow> disk \<Rightarrow> bool \<times> disk) \<Rightarrow> string \<Rightarrow> string \<Rightarrow> disk
     \<Rightarrow> (py_error + bool) \<times> disk" where
  "unzip_file extractall filename destination d =
     (case files d filename of
        None \<Rightarrow> (Inl (Exception IOError), d)
      | Some content \<Rightarrow>
          (case extractall filename content destination d of
             (True, d') \<Rightarrow> (Inr True, d')
           | (False, d') \<Rightarrow> (Inl (Exception IOError), d')))"

text \<open>
  \<^verbatim>\<open>_try_download_unizip_deployment_requirements\<close>: an exception of the download
  propagates; an exception of the extraction is caught and gives False.
\<close>

definition try_download_unizip_deployment_requirements ::
  "(string \<Rightarrow> bytes \<Rightarrow> string \<Rightarrow> disk \<Rightarrow> bool \<times> disk) \<Rightarrow> url_result \<Rightarrow> string \<Rightarrow> string \<Rightarrow> disk
     \<Rightarrow> (py_error + bool) \<times> disk" where
  "try_download_unizip_deployment_requirements extractall answer download_path dirname d =
     (case download_file answer download_path d of
        (Inl e, d') \<Rightarrow> (Inl e, d')
      | (Inr valid_download, d') \<Rightarrow>
          if \<not> valid_download then (Inr False, d')
          else
            (case unzip_file extractall download_path dirname d' of
               (Inl _, d'') \<Rightarrow> (Inr False, d'')
             | (Inr valid_unzip, d'') \<Rightarrow> (Inr valid_unzip, d'')))"

text \<open>
  The retry loop of \<^verbatim>\<open>_download_deployment_requirements\<close>, with its two variables.
  \<open>server n\<close> is the answer to the download of the attempt made when \<^verbatim>\<open>total_tries\<close>
  is \<open>n\<close>. The result is the final \<^verbatim>\<open>valid_status\<close> and \<^verbatim>\<open>total_tries\<close>, the number
  of attempts made.
\<close>

function download_loop ::
  "(string \<Rightarrow> bytes \<Rightarrow> string \<Rightarrow> disk \<Rightarrow> bool \<times> disk) \<Rightarrow> (nat \<Rightarrow> url_result) \<Rightarrow> string \<Rightarrow> string
     \<Rightarrow> bool \<Rightarrow> nat \<Rightarrow> disk \<Rightarrow> (py_error + bool \<times> nat) \<times> disk" where
  "download_loop extractall server download_path dirname valid_status total_tries d =
     (if valid_status then (Inr (valid_status, total_tries), d)
      else if total_tries > 10 then (Inr (valid_status, total_tries), d)
      else
        (case try_download_unizip_deployment_requirements extractall (server total_tries)
                download_path dirname d of
           (Inl e, d') \<Rightarrow> (Inl e, d')
         | (Inr status, d') \<Rightarrow>
             download_loop extractall server download_path dirname status (total_tries + 1) d'))"
  by pat_completeness auto
termination
  by (relation "measure (\<lambda>(extractall, server, download_path, dirname, valid_status, total_tries, d).
        11 - total_tries)") auto

subsection \<open>The search for the requirements file\<close>

text \<open>
  \<^verbatim>\<open>os.path.join\<close> of two components, as \<^verbatim>\<open>posixpath\<close> defines it (on Windows
  the separator and the drive letters differ; no statement below depends on them).
\<close>

definition path_join :: "string \<Rightarrow> string \<Rightarrow> string" where
  "path_join a b =
     (if b \<noteq> [] \<and> hd b = CHR ''/'' then b
      else if a = [] \<or> last a = CHR ''/'' then a @ b
      else a @ ''/'' @ b)"

text \<open>
  One step of \<^verbatim>\<open>for root, dirs, files in os.walk(dirname)\<close>: the inner loop over the
  file names stops at the first one that equals the requirements file name and assigns
  \<^verbatim>\<open>requirement_path\<close>; its \<^verbatim>\<open>break\<close> leaves the inner loop only.
\<close>

fun search_requirements ::
  "string \<Rightarrow> (string \<times> string list \<times> string list) list \<Rightarrow> string option \<Rightarrow> string option" where
  "search_requirements requirements_file_name [] requirement_path = requirement_path"
| "search_requirements requirements_file_name ((root, subdirs, names) # walk) requirement_path =
     search_requirements requirements_file_name walk
       (case find (\<lambda>name. name = requirements_file_name) names of
          None \<Rightarrow> requirement_path
        | Some name \<Rightarrow> Some (path_join root name))"

text \<open>
  \<^verbatim>\<open>_download_deployment_requirements\<close>, after the URL has answered with
  \<open>status_code\<close>: the retry loop, then the search over \<open>os_walk dirname\<close> on the disk
  the loop left. The result is the returned flag and \<^verbatim>\<open>self._requirements_path\<close>.
\<close>

definition download_deployment_requirements ::
  "(string \<Rightarrow> bytes \<Rightarrow> string \<Rightarrow> disk \<Rightarrow> bool \<times> disk) \<Rightarrow> (string \<Rightarrow> disk \<Rightarrow> (string \<times> string list \<times> string list) list)
     \<Rightarrow> (nat \<Rightarrow> url_result) \<Rightarrow> nat \<Rightarrow> string \<Rightarrow> string \<Rightarrow> string \<Rightarrow> disk
     \<Rightarrow> (py_error + bool \<times> string option) \<times> disk" where
  "download_deployment_requirements extractall os_walk server status_code requirements_file_name
       repo_name dirname d =
     (if status_code \<noteq> 200 then (Inr (False, None), d)
      else
        (case download_loop extractall server (path_join dirname repo_name) dirname False 0 d of
           (Inl e, d') \<Rightarrow> (Inl e, d')
         | (Inr (valid_status, total_tries), d') \<Rightarrow>
             if \<not> valid_status then (Inr (False, None), d')
             else
               (case search_requirements requirements_file_name (os_walk dirname d') None of
                  None \<Rightarrow> (Inr (False, None), d')
                | Some requirement_path \<Rightarrow>
                    if requirement_path = [] then (Inr (False, None), d')
                    else (Inr (True, Some requirement_path), d'))))"

text \<open>The specification's rule: the first match in walk order.\<close>

definition first_match ::
  "string \<Rightarrow> (string \<times> string list \<times> string list) list \<Rightarrow> string option" where
  "first_match requirements_file_name walk =
     (case find (\<lambda>(root, subdirs, names). requirements_file_name \<in> set names) walk of
        None \<Rightarrow> None
      | Some (root, subdirs, names) \<Rightarrow> Some (path_join root requirements_file_name))"

text \<open>Concrete inputs: an archive library that accepts exactly the bytes \<^verbatim>\<open>GOOD\<close>.\<close>

definition accept_good :: "string \<Rightarrow> bytes \<Rightarrow> string \<Rightarrow> disk \<Rightarrow> bool \<times> disk" where
  "accept_good filename content destination d = (content = ''GOOD'', d)"

definition body :: "bytes \<Rightarrow> url_result" where
  "body b = Opened \<lparr>header = Length (int (length b)), reads = [Chunk b, Chunk []]\<rparr>"

definition empty_disk :: disk where
  "empty_disk = \<lparr>config_file = None, dirs = {''/tmp/w''}, files = Map.empty\<rparr>"

definition archive_walk :: "(string \<times> string list \<times> string list) list" where
  "archive_walk =
     [(''/tmp/w'', [''solstice-1.0.0''], [''1.0.0.tar.gz'']),
      (''/tmp/w/solstice-1.0.0'', [''docs'', ''source''], [''README.md'', ''requirements.txt'']),
      (''/tmp/w/solstice-1.0.0/docs'', [], [''index.md'', ''requirements.txt'']),
      (''/tmp/w/solstice-1.0.0/source'', [], [''setup.py''])]"

section \<open>The updater and its install path\<close>

text \<open>
  The fields of \<^verbatim>\<open>self\<close> the functions below read: the development flag, the
  project name, the name of the install-path key, \<^verbatim>\<open>self._install_path\<close> (None
  until \<^verbatim>\<open>_set_installation_path\<close> assigns it), \<^verbatim>\<open>self._config_data\<close> (the
  \<^verbatim>\<open>config.json\<close> packaged with the executable, read by \<^verbatim>\<open>_read_config\<close> and
  written by \<^verbatim>\<open>generate_launcher.py\<close> with the keys \<^verbatim>\<open>name\<close>, \<^verbatim>\<open>repository\<close> and
  \<^verbatim>\<open>splash\<close>; not the configuration store) and the directory development mode
  derives from \<^verbatim>\<open>sys.executable\<close>.
\<close>

record updater =
  self_dev :: bool
  self_project_name :: string
  self_install_env_var :: string
  self_install_path :: "string option"
  self_config_data :: "(string \<times> string) list"
  sys_executable_dir :: string



text \<open>\<^verbatim>\<open>_get_app_config\<close>: a lookup in the packaged configuration.\<close>

definition get_app_config :: "updater \<Rightarrow> string \<Rightarrow> string option" where
  "get_app_config self config_name =
     (if self_config_data self = [] then None
      else map_of (self_config_data self) config_name)"

text \<open>\<^verbatim>\<open>_get_installation_path\<close>: in production, the entry of the configuration store.\<close>

definition get_installation_path :: "updater \<Rightarrow> disk \<Rightarrow> py_error + string" where
  "get_installation_path self d =
     (if self_dev self then Inr (sys_executable_dir self)
      else
        (case get_config_data d of
           NonDict \<Rightarrow> Inl AttributeError
         | Dict config_data \<Rightarrow>
             Inr (case config_data (self_install_env_var self) of None \<Rightarrow> [] | Some p \<Rightarrow> p)))"

text \<open>
  The last block of \<^verbatim>\<open>_load\<close>, reached when every earlier step has succeeded
  (comment in the source: \<^verbatim>\<open># We check that stored config path exits\<close>). The result
  is \<^verbatim>\<open>is_installed\<close>.
\<close>

definition load_stored_path_check :: "updater \<Rightarrow> disk \<Rightarrow> (py_error + bool) \<times> disk" where
  "load_stored_path_check self d =
     (case (case get_app_config self (self_install_env_var self) of
              None \<Rightarrow> (Inr False, d)
            | Some stored_path \<Rightarrow>
                if stored_path \<noteq> [] \<and> stored_path \<notin> dirs d
                then set_config (self_install_env_var self) [] d
                else (Inr False, d)) of
        (Inl e, d') \<Rightarrow> (Inl e, d')
      | (Inr _, d') \<Rightarrow>
          (case get_installation_path self d' of
             Inl e \<Rightarrow> (Inl e, d')
           | Inr path_install \<Rightarrow> (Inr (path_install \<noteq> [] \<and> path_install \<in> dirs d'), d')))"






text \<open>Concrete inputs.\<close>

definition solstice :: updater where
  "solstice =
     \<lparr>self_dev = False, self_project_name = ''Solstice Short'',
      self_install_env_var = ''solsticeshort_install'',
      self_install_path = Some ''/opt/tools'',
      self_config_data =
        [(''name'', ''Solstice Short''), (''repository'', ''Solstice/deploy''),
         (''splash'', ''splash.png'')],
      sys_executable_dir = ''/usr/bin''\<rparr>"


definition stale_disk :: disk where
  "stale_disk =
     \<lparr>config_file = Some (JsonObject [''solsticeshort_install'' \<mapsto> ''/gone'']),
      dirs = {''/usr/bin''}, files = Map.empty\<rparr>"

section \<open>Shared lemmas\<close>

lemma find_append_case:
  "find P (xs @ ys) = (case find P xs of Some x \<Rightarrow> Some x | None \<Rightarrow> find P ys)"
  by (induction xs) simp_all

lemma find_name: "find (\<lambda>name. name = n) names = (if n \<in> set names then Some n else None)"
  by (induction names) auto

section \<open>Reading the store\<close>

text \<open>
  C6. Reading the configuration returns the empty mapping when the file is absent and
  when its content is not valid JSON, and returns the stored mapping when the file
  holds a JSON object. The read is a total function: the parse error is caught.
\<close>

theorem get_config_data_total:
  "(config_file d = None \<longrightarrow> get_config_data d = Dict Map.empty) \<and>
   (config_file d = Some NotJson \<longrightarrow> get_config_data d = Dict Map.empty) \<and>
   (config_file d = Some (JsonObject m) \<longrightarrow> get_config_data d = Dict m)"
  by (simp add: get_config_data_def)

theorem get_config_data_total_witness:
  "get_config_data no_store = Dict Map.empty \<and>
   get_config_data corrupt_store = Dict Map.empty \<and>
   get_config_data tagged_store = Dict [''tag'' \<mapsto> ''1.0.0'']"
  using get_config_data_total [of no_store]
        get_config_data_total [of corrupt_store]
        get_config_data_total [of tagged_store "[''tag'' \<mapsto> ''1.0.0'']"]
  by (simp add: no_store_def corrupt_store_def tagged_store_def)

section \<open>Writing the store\<close>

text \<open>
  C9. A write performed while the configuration file does not exist changes nothing on
  disk and returns False; a write that returns True found the file present; and
  \<^verbatim>\<open>_setup_config\<close> leaves the file present.
\<close>

theorem set_config_needs_file:
  "(config_file d = None \<longrightarrow> set_config k v d = (Inr False, d)) \<and>
   (fst (set_config k v d) = Inr True \<longrightarrow> config_file d \<noteq> None) \<and>
   config_file (setup_config d) \<noteq> None"
  by (auto simp: set_config_def setup_config_def split: option.splits py_data.splits)

theorem set_config_needs_file_witness:
  "set_config ''tag'' ''2.0.0'' no_store = (Inr False, no_store) \<and>
   fst (set_config ''tag'' ''2.0.0'' tagged_store) = Inr True \<and>
   config_file tagged_store \<noteq> None \<and>
   config_file (setup_config no_store) \<noteq> None"
proof -
  have absent: "config_file no_store = None"
    by (simp add: no_store_def)
  have written: "fst (set_config ''tag'' ''2.0.0'' tagged_store) = Inr True"
    by (simp add: set_config_def get_config_data_def tagged_store_def)
  from set_config_needs_file [of no_store "''tag''" "''2.0.0''"] absent
  have "set_config ''tag'' ''2.0.0'' no_store = (Inr False, no_store)"
    and "config_file (setup_config no_store) \<noteq> None"
    by simp_all
  moreover from set_config_needs_file [of tagged_store "''tag''" "''2.0.0''"] written
  have "config_file tagged_store \<noteq> None"
    by simp
  ultimately show ?thesis
    using written by simp
qed

text \<open>
  C7, as stated: for every key and value, a write followed by a read gives the value at
  the key. It fails when the file is absent: the write is refused and the read gives
  the empty mapping.
\<close>

theorem write_read_absent_counterexample:
  "fst (set_config ''tag'' ''1.0.0'' no_store) = Inr False \<and>
   read_key (snd (set_config ''tag'' ''1.0.0'' no_store)) ''tag'' \<noteq> Some ''1.0.0''"
  by (simp add: set_config_def read_key_def get_config_data_def no_store_def)

text \<open>
  C7, amended: when the configuration file exists and its content is a JSON object or
  is not valid JSON, a write of \<open>(k, v)\<close> returns True and a read afterwards gives
  \<open>v\<close> at \<open>k\<close>, for every string \<open>v\<close>, the empty one included; the other keys keep
  the values the read gave before.
\<close>

theorem write_read_roundtrip:
  assumes "config_file d = Some c" and "c \<noteq> JsonNonObject"
  shows "fst (set_config k v d) = Inr True \<and>
         read_key (snd (set_config k v d)) k = Some v \<and>
         (k' \<noteq> k \<longrightarrow> read_key (snd (set_config k v d)) k' = read_key d k')"
  using assms
  by (cases c) (simp_all add: set_config_def read_key_def get_config_data_def)

theorem write_read_roundtrip_witness:
  "config_file tagged_store = Some (JsonObject [''tag'' \<mapsto> ''1.0.0'']) \<and>
   fst (set_config ''solstice_install'' [] tagged_store) = Inr True \<and>
   read_key (snd (set_config ''solstice_install'' [] tagged_store)) ''solstice_install'' = Some [] \<and>
   read_key (snd (set_config ''solstice_install'' [] tagged_store)) ''tag'' = Some ''1.0.0''"
proof -
  have present: "config_file tagged_store = Some (JsonObject [''tag'' \<mapsto> ''1.0.0''])"
    by (simp add: tagged_store_def)
  have object: "JsonObject [''tag'' \<mapsto> ''1.0.0''] \<noteq> JsonNonObject"
    by simp
  have before: "read_key tagged_store ''tag'' = Some ''1.0.0''"
    by (simp add: read_key_def get_config_data_def tagged_store_def)
  show ?thesis
    using present before
      write_read_roundtrip [OF present object, of "''solstice_install''" "[]" "''tag''"]
    by simp
qed

section \<open>The latest release\<close>

lemma acceptable_None: "V t = None \<Longrightarrow> \<not> acceptable V is_prerelease pre t"
  by (simp add: acceptable_def)

lemma acceptable_Some:
  "V t = Some v \<Longrightarrow> acceptable V is_prerelease pre t = (\<not> is_prerelease v \<or> pre)"
  by (simp add: acceptable_def)

text \<open>Under validation the inner loop is a search for the first acceptable linked tag.\<close>

lemma scan_timeline_tags_find:
  "scan_timeline_tags V is_prerelease True pre releases =
     map_option (\<lambda>t. (t, True))
       (find (acceptable V is_prerelease pre)
          (map sanitize_github_version (List.map_filter id releases)))"
proof (induction releases)
  case Nil
  show ?case by simp
next
  case (Cons a releases)
  show ?case
  proof (cases a)
    case None
    with Cons show ?thesis by simp
  next
    case (Some release_a)
    show ?thesis
    proof (cases "V (sanitize_github_version release_a)")
      case None
      with Cons Some show ?thesis
        by (simp add: acceptable_None)
    next
      case (Some v)
      with Cons \<open>a = Some release_a\<close> show ?thesis
        by (cases pre) (simp_all add: acceptable_Some)
    qed
  qed
qed

text \<open>
  Under validation the outer loop never assigns \<^verbatim>\<open>version\<close> without leaving, so it
  returns the first acceptable candidate, or the value it started with.
\<close>

lemma scan_release_entries_find:
  assumes "list_all (titled pre) page"
  shows "scan_release_entries V is_prerelease True pre page version =
     Inr (case first_acceptable_candidate V is_prerelease pre page of
            Some t \<Rightarrow> Some t
          | None \<Rightarrow> version)"
  using assms
proof (induction page)
  case Nil
  show ?case by (simp add: first_acceptable_candidate_def)
next
  case (Cons e page)
  then have rest: "scan_release_entries V is_prerelease True pre page version =
     Inr (case first_acceptable_candidate V is_prerelease pre page of
            Some t \<Rightarrow> Some t
          | None \<Rightarrow> version)"
    by simp
  show ?case
  proof (cases e)
    case (TimelineTags releases)
    show ?thesis
      using rest
      by (simp add: TimelineTags scan_timeline_tags_find first_acceptable_candidate_def
          find_append_case split: option.splits)
  next
    case (FormalRelease r)
    from Cons.prems FormalRelease
    have title: "\<not> selected_label pre r \<or> truncate_target r \<noteq> None"
      by simp
    show ?thesis
    proof (cases "selected_label pre r")
      case False
      with rest show ?thesis
        by (simp add: FormalRelease first_acceptable_candidate_def selected_label_def)
    next
      case True
      with title obtain title_text where target: "truncate_target r = Some title_text"
        by auto
      show ?thesis
      proof (cases "V (sanitize_github_version title_text)")
        case None
        with rest True target show ?thesis
          by (simp add: FormalRelease first_acceptable_candidate_def selected_label_def
              acceptable_None)
      next
        case (Some v)
        with rest True target show ?thesis
          by (cases pre)
            (simp_all add: FormalRelease first_acceptable_candidate_def selected_label_def
              acceptable_Some)
      qed
    qed
  qed
qed

text \<open>
  C5, as stated: with validation the function returns the first entry in listing order
  whose sanitized tag parses and whose pre-release status fits the flag. It fails on a
  page whose first release, 1.9.1, does not carry the label \<^verbatim>\<open>Latest release\<close> and
  whose second one, 2.0.0, does: the first acceptable entry is 1.9.1 and the function
  returns 2.0.0.
\<close>

theorem latest_skips_unlabelled_release_counterexample:
  "get_latest_deploy_tag Version_core is_prerelease_core False True True False maintenance_page =
     Inr (Some ''2.0.0'') \<and>
   first_acceptable_entry Version_core is_prerelease_core False maintenance_page =
     Some ''1.9.1''"
  by code_simp

text \<open>
  C5, amended: with validation, on a page where every formal release that carries the
  selected label has its title, the function returns the first candidate in listing
  order whose sanitized tag parses and whose pre-release status fits the flag, where
  the candidates are the linked tags of the tag-only entries and the formal releases
  that carry the label the flag selects (\<^verbatim>\<open>label-latest\<close> when \<^verbatim>\<open>pre\<close> is false,
  \<^verbatim>\<open>label-prerelease\<close> when it is true). Candidates whose tag does not parse are
  passed over and the scan goes on: the result is never an exception, and it is None
  only when no candidate is acceptable. The parser is any function that rejects the
  empty string.
\<close>

theorem get_latest_deploy_tag_first_candidate:
  assumes "V [] = None" and "list_all (titled pre) page"
  shows "get_latest_deploy_tag V is_prerelease False True True pre page =
           Inr (first_acceptable_candidate V is_prerelease pre page)"
proof (cases "first_acceptable_candidate V is_prerelease pre page")
  case None
  with scan_release_entries_find [OF assms(2), of V is_prerelease None]
  show ?thesis by (simp add: get_latest_deploy_tag_def)
next
  case (Some t)
  then have "acceptable V is_prerelease pre t"
    by (auto simp: first_acceptable_candidate_def find_Some_iff)
  then have parses: "V t \<noteq> None"
    by (simp add: acceptable_def split: option.splits)
  with assms(1) have "t \<noteq> []" by auto
  with Some parses scan_release_entries_find [OF assms(2), of V is_prerelease None]
  show ?thesis by (auto simp: get_latest_deploy_tag_def)
qed

theorem get_latest_deploy_tag_first_candidate_witness:
  "Version_core [] = None \<and>
   list_all (titled False) malformed_page \<and>
   get_latest_deploy_tag Version_core is_prerelease_core False True True False malformed_page =
     Inr (Some ''1.9.8'') \<and>
   list_all (titled False) tags_page \<and>
   get_latest_deploy_tag Version_core is_prerelease_core False True True False tags_page =
     Inr (Some ''2.1.0'')"
proof -
  have rejects: "Version_core [] = None"
    by code_simp
  have titles: "list_all (titled False) malformed_page" "list_all (titled False) tags_page"
    by code_simp+
  have first: "first_acceptable_candidate Version_core is_prerelease_core False malformed_page =
      Some ''1.9.8''"
    "first_acceptable_candidate Version_core is_prerelease_core False tags_page = Some ''2.1.0''"
    by code_simp+
  from get_latest_deploy_tag_first_candidate
      [where V = Version_core and pre = False and page = malformed_page
         and is_prerelease = is_prerelease_core]
    get_latest_deploy_tag_first_candidate
      [where V = Version_core and pre = False and page = tags_page
         and is_prerelease = is_prerelease_core]
    rejects titles first
  show ?thesis by simp
qed

section \<open>Resolving the deploy tag\<close>

text \<open>
  C1. Deploy-tag resolution must not raise, whatever the persisted tag and the latest
  tag are. The code raises: with the persisted tag 1.0.0 and a releases page without
  entries, the latest tag is None and \<^verbatim>\<open>Version(None)\<close> raises TypeError; with the
  persisted tag \<^verbatim>\<open>nightly\<close>, \<^verbatim>\<open>Version(deploy_tag)\<close> raises InvalidVersion. Neither
  call stands in a \<^verbatim>\<open>try\<close>, unlike the three in \<^verbatim>\<open>_get_latest_deploy_tag\<close>.
\<close>

theorem get_deploy_tag_raises:
  "get_deploy_tag Version_core is_prerelease_core gt_core False yes [] tagged_store =
     (Inl TypeError, tagged_store) \<and>
   get_deploy_tag Version_core is_prerelease_core gt_core False yes tags_page nightly_store =
     (Inl InvalidVersion, nightly_store)"
proof -
  have none: "get_latest_deploy_tag Version_core is_prerelease_core False True True False [] =
      Inr None"
    by (simp add: get_latest_deploy_tag_def)
  have latest: "get_latest_deploy_tag Version_core is_prerelease_core False True True False
      tags_page = Inr (Some ''2.1.0'')"
    by code_simp
  have parsed: "Version_core ''1.0.0'' = Some \<lparr>release_segment = [1, 0, 0], rc_number = None\<rparr>"
    by code_simp
  have rejected: "Version_core ''nightly'' = None"
    by code_simp
  show ?thesis
    by (simp add: get_deploy_tag_def get_config_data_def tagged_store_def nightly_store_def
        none latest parsed rejected)
qed

text \<open>
  The first failure does not depend on the parser: with any persisted tag and no latest
  tag, resolution raises.
\<close>

lemma get_deploy_tag_no_latest_raises:
  assumes "read_key d ''tag'' = Some t" and "t \<noteq> []"
    and "get_latest_deploy_tag V is_prerelease False True True False page = Inr None"
  shows "fst (get_deploy_tag V is_prerelease gt False yes page d) =
           Inl (if V t = None then InvalidVersion else TypeError)"
proof -
  from assms(1) obtain m where "get_config_data d = Dict m" and "m ''tag'' = Some t"
    by (auto simp: read_key_def split: py_data.splits)
  with assms(2,3) show ?thesis
    by (cases "V t") (simp_all add: get_deploy_tag_def)
qed

text \<open>
  With no persisted tag nothing is compared and the latest tag is returned, None
  included.
\<close>

lemma get_deploy_tag_fresh:
  assumes "read_key d ''tag'' = None" and "config_file d \<noteq> Some JsonNonObject"
    and "get_latest_deploy_tag V is_prerelease False True True False page = Inr latest"
  shows "get_deploy_tag V is_prerelease gt False yes page d = (Inr latest, d)"
proof -
  from assms(2) obtain m where "get_config_data d = Dict m"
    by (cases "config_file d"; cases "the (config_file d)")
      (auto simp: get_config_data_def)
  with assms(1,3) show ?thesis
    by (simp add: get_deploy_tag_def read_key_def)
qed

text \<open>
  With the persisted tag 1.0.0 and the latest tag 2.1.0, both valid, the user is asked:
  a yes writes the latest tag to the store and returns it, a no keeps the persisted tag
  and the store.
\<close>

lemma get_deploy_tag_upgrade:
  "fst (get_deploy_tag Version_core is_prerelease_core gt_core False True tags_page tagged_store) =
     Inr (Some ''2.1.0'') \<and>
   read_key (snd (get_deploy_tag Version_core is_prerelease_core gt_core False True tags_page
     tagged_store)) ''tag'' = Some ''2.1.0'' \<and>
   get_deploy_tag Version_core is_prerelease_core gt_core False False tags_page tagged_store =
     (Inr (Some ''1.0.0''), tagged_store)"
proof -
  have latest: "get_latest_deploy_tag Version_core is_prerelease_core False True True False
      tags_page = Inr (Some ''2.1.0'')"
    by code_simp
  have persisted: "Version_core ''1.0.0'' = Some \<lparr>release_segment = [1, 0, 0], rc_number = None\<rparr>"
    and newer: "Version_core ''2.1.0'' = Some \<lparr>release_segment = [2, 1, 0], rc_number = None\<rparr>"
    by code_simp+
  show ?thesis
    by (simp add: get_deploy_tag_def get_config_data_def tagged_store_def set_config_def
        read_key_def latest persisted newer gt_core_def strip_zeros_def Let_def)
qed


section \<open>The retry loop\<close>

text \<open>The loop stops with a counter of at most 11.\<close>

lemma download_loop_bound:
  "download_loop extractall server download_path dirname valid_status total_tries d =
     (Inr (status, tries), d') \<Longrightarrow> total_tries \<le> 11 \<Longrightarrow> tries \<le> 11"
proof (induction extractall server download_path dirname valid_status total_tries d
    rule: download_loop.induct)
  case (1 extractall server download_path dirname valid_status total_tries d)
  show ?case
  proof (cases "valid_status \<or> total_tries > 10")
    case True
    with "1.prems" show ?thesis by (auto split: if_splits)
  next
    case False
    obtain r d1 where attempt:
      "try_download_unizip_deployment_requirements extractall (server total_tries)
         download_path dirname d = (r, d1)"
      by (cases "try_download_unizip_deployment_requirements extractall (server total_tries)
         download_path dirname d")
    show ?thesis
    proof (cases r)
      case (Inl e)
      with False attempt "1.prems" show ?thesis by simp
    next
      case (Inr next_status)
      with False attempt "1.prems"(1)
      have "download_loop extractall server download_path dirname next_status
              (total_tries + 1) d1 = (Inr (status, tries), d')"
        by simp
      moreover from False have "total_tries + 1 \<le> 11" by simp
      ultimately show ?thesis
        using "1.IH" False attempt Inr by auto
    qed
  qed
qed

text \<open>When every attempt returns False, the loop makes eleven of them.\<close>

lemma download_loop_all_fail:
  assumes "\<And>n d. fst (try_download_unizip_deployment_requirements extractall (server n)
             download_path dirname d) = Inr False"
  shows "total_tries \<le> 11 \<Longrightarrow>
         fst (download_loop extractall server download_path dirname False total_tries d) =
           Inr (False, 11)"
proof (induction "11 - total_tries" arbitrary: total_tries d)
  case 0
  then have "total_tries = 11" by simp
  then show ?case by simp
next
  case (Suc k)
  then have small: "\<not> total_tries > 10" by simp
  obtain r d1 where attempt:
    "try_download_unizip_deployment_requirements extractall (server total_tries)
       download_path dirname d = (r, d1)"
    by (cases "try_download_unizip_deployment_requirements extractall (server total_tries)
       download_path dirname d")
  with assms [of total_tries d] have r: "r = Inr False" by simp
  from Suc have "k = 11 - (total_tries + 1)" and "total_tries + 1 \<le> 11" by simp_all
  then have "fst (download_loop extractall server download_path dirname False
                (total_tries + 1) d1) = Inr (False, 11)"
    by (rule Suc.hyps(1))
  with small attempt r show ?case by simp
qed

text \<open>
  C2. The fetch loop makes at most ten download and extract cycles and returns failure
  when all fail. The code stops on \<^verbatim>\<open>total_tries > 10\<close> with a counter that starts at
  0: against a server whose archive never extracts, it returns failure after eleven
  cycles. An exception of the download is not an attempt outcome at all: it leaves the
  loop at the first cycle.
\<close>

theorem download_loop_eleven_cycles:
  "fst (download_loop accept_good (\<lambda>n. body ''BAD'') ''/tmp/w/1.0.0.tar.gz'' ''/tmp/w''
          False 0 empty_disk) = Inr (False, 11) \<and>
   fst (download_loop accept_good (\<lambda>n. UrlError) ''/tmp/w/1.0.0.tar.gz'' ''/tmp/w''
          False 0 empty_disk) = Inl (Exception IOError)"
  by code_simp

section \<open>The download target\<close>

lemma read_chunks_appends:
  "\<exists>suffix. snd (read_chunks rs total_size content n) = content @ suffix"
proof (induction rs total_size content n rule: read_chunks.induct)
  case (3 chunk rs total_size content bytes_so_far)
  show ?case
  proof (cases "chunk \<noteq> [] \<and> total_size \<noteq> 0")
    case True
    with 3 obtain suffix where
      "snd (read_chunks rs total_size (content @ chunk) (bytes_so_far + length chunk)) =
         (content @ chunk) @ suffix"
      by blast
    with True show ?thesis by simp
  next
    case False
    then show ?thesis by auto
  qed
qed simp_all

text \<open>Whatever the server answers, the bytes already in the target stay at its front.\<close>

lemma chunk_read_keeps_old_bytes:
  assumes "files d destination = Some old"
  shows "\<exists>suffix. files (snd (chunk_read rsp destination d)) destination = Some (old @ suffix)"
proof (cases "header rsp")
  case NoLength
  with assms show ?thesis by (simp add: chunk_read_def)
next
  case BadLength
  with assms show ?thesis by (simp add: chunk_read_def)
next
  case (Length total_size)
  obtain r content where run: "read_chunks (reads rsp) total_size old 0 = (r, content)"
    by (cases "read_chunks (reads rsp) total_size old 0")
  from read_chunks_appends [of "reads rsp" total_size old 0] run
  obtain suffix where "content = old @ suffix" by auto
  with assms Length run show ?thesis
    by (cases r) (simp_all add: chunk_read_def)
qed

text \<open>
  C3. After a retried download the target holds exactly the bytes the retry fetched.
  The code opens the target in append mode. A first attempt fetches \<^verbatim>\<open>BAD\<close>, which
  does not extract; the retry fetches \<^verbatim>\<open>GOOD\<close>, which would; the target then holds
  \<^verbatim>\<open>BADGOOD\<close> and the retry fails too.
\<close>

theorem retry_appends_to_target:
  "fst (try_download_unizip_deployment_requirements accept_good (body ''BAD'')
          ''/tmp/w/1.0.0.tar.gz'' ''/tmp/w'' empty_disk) = Inr False \<and>
   files (snd (try_download_unizip_deployment_requirements accept_good (body ''GOOD'')
          ''/tmp/w/1.0.0.tar.gz'' ''/tmp/w''
          (snd (try_download_unizip_deployment_requirements accept_good (body ''BAD'')
             ''/tmp/w/1.0.0.tar.gz'' ''/tmp/w'' empty_disk))))
     ''/tmp/w/1.0.0.tar.gz'' = Some ''BADGOOD'' \<and>
   fst (try_download_unizip_deployment_requirements accept_good (body ''GOOD'')
          ''/tmp/w/1.0.0.tar.gz'' ''/tmp/w''
          (snd (try_download_unizip_deployment_requirements accept_good (body ''BAD'')
             ''/tmp/w/1.0.0.tar.gz'' ''/tmp/w'' empty_disk))) = Inr False \<and>
   fst (try_download_unizip_deployment_requirements accept_good (body ''GOOD'')
          ''/tmp/w/1.0.0.tar.gz'' ''/tmp/w'' empty_disk) = Inr True"
  by code_simp

section \<open>The requirements file\<close>

text \<open>
  The search returns the match of the last directory of the walk that has one: the
  first match of the reversed walk.
\<close>

lemma search_requirements_last:
  "search_requirements n walk requirement_path =
     (case first_match n (rev walk) of None \<Rightarrow> requirement_path | Some p \<Rightarrow> Some p)"
proof (induction walk arbitrary: requirement_path)
  case Nil
  show ?case by (simp add: first_match_def)
next
  case (Cons entry walk)
  obtain root subdirs names where entry: "entry = (root, subdirs, names)"
    by (cases entry)
  show ?case
    by (simp add: entry Cons find_name first_match_def find_append_case split: option.splits)
qed

text \<open>
  C4. The recorded requirements path is the first file of the configured name in walk
  order. The \<^verbatim>\<open>break\<close> of the code leaves the loop over the file names only, so the
  walk goes on and a later directory overwrites the path: for an archive with
  \<^verbatim>\<open>requirements.txt\<close> at its top and in \<^verbatim>\<open>docs\<close>, the code records the one in
  \<^verbatim>\<open>docs\<close>.
\<close>

theorem search_requirements_records_later_match:
  "search_requirements ''requirements.txt'' archive_walk None =
     Some ''/tmp/w/solstice-1.0.0/docs/requirements.txt'' \<and>
   first_match ''requirements.txt'' archive_walk =
     Some ''/tmp/w/solstice-1.0.0/requirements.txt''"
  by code_simp

text \<open>
  The whole function on a server that answers with an archive that extracts, for the
  walk above: one cycle, and the path in \<^verbatim>\<open>docs\<close> is recorded.
\<close>

lemma download_deployment_requirements_example:
  "fst (download_deployment_requirements accept_good (\<lambda>dirname d. archive_walk)
          (\<lambda>n. body ''GOOD'') 200 ''requirements.txt'' ''1.0.0.tar.gz'' ''/tmp/w'' empty_disk) =
     Inr (True, Some ''/tmp/w/solstice-1.0.0/docs/requirements.txt'') \<and>
   fst (download_deployment_requirements accept_good (\<lambda>dirname d. [])
          (\<lambda>n. body ''GOOD'') 200 ''requirements.txt'' ''1.0.0.tar.gz'' ''/tmp/w'' empty_disk) =
     Inr (False, None)"
  by code_simp


section \<open>The stored install path\<close>

text \<open>
  When the packaged configuration has no install-path key, the block leaves the disk
  as it is, whatever the store holds.
\<close>

lemma load_check_ignores_store:
  assumes "get_app_config self (self_install_env_var self) = None"
  shows "snd (load_stored_path_check self d) = d"
  using assms
  by (simp add: load_stored_path_check_def split: sum.splits)

text \<open>
  C8. When the persisted install path is not an existing directory, the load cycle
  clears the entry. The last block of \<^verbatim>\<open>_load\<close> reads the path to check from the
  packaged configuration (\<^verbatim>\<open>_get_app_config\<close>), not from the store: with a store that
  points at the missing \<^verbatim>\<open>/gone\<close> the block changes nothing, in production and in
  development mode.
\<close>

theorem load_keeps_missing_install_path:
  "load_stored_path_check solstice stale_disk = (Inr False, stale_disk) \<and>
   load_stored_path_check (solstice\<lparr>self_dev := True\<rparr>) stale_disk = (Inr True, stale_disk) \<and>
   read_key stale_disk (self_install_env_var solstice) = Some ''/gone'' \<and>
   ''/gone'' \<notin> dirs stale_disk"
  by (simp add: load_stored_path_check_def get_app_config_def solstice_def stale_disk_def
      get_installation_path_def get_config_data_def read_key_def)

section \<open>Uninstalling\<close>







end
